theory Spec2Isabelle
  imports Main "HOL-Library.Word"
begin

section \<open>The object bucket claim reconciler (reconiler.go)\<close>

text \<open>
  A shallow embedding of \<^verbatim>\<open>pkg/provisioner/reconciler/claim-reconciler/reconiler.go\<close>.
  The file calls a store client, a provisioner plugin and a set of package helpers that
  live in other files. Each of them is a field of an environment record: a function from
  the state of the outside world to a result and a new state of the world, arbitrary in
  every theorem. The embedding itself records every such call, with its operands and its
  result, in a trace.
\<close>

subsection \<open>Data\<close>

text \<open>\<^verbatim>\<open>client.ObjectKey\<close> (a namespaced name) and \<^verbatim>\<open>reconcile.Request\<close>.\<close>

record ObjectKey =
  Namespace :: string
  Name :: string

record Request =
  NamespacedName :: ObjectKey

text \<open>\<^verbatim>\<open>reconcile.Result\<close>; \<^verbatim>\<open>time.Duration\<close> is a signed 64-bit count of nanoseconds.\<close>

type_synonym Duration = "64 word"

record Result =
  Requeue :: bool
  RequeueAfter :: Duration

text \<open>
  Errors. An error of the API machinery carries a status reason, which
  \<^verbatim>\<open>errors.IsNotFound\<close> reads. An error made by \<^verbatim>\<open>fmt.Errorf\<close> is kept as its format
  string and its operands: it is a new error value of the plain string kind, whatever
  the operands were.
\<close>

datatype StatusReason = StatusReasonNotFound | StatusReasonAlreadyExists | StatusReasonUnknown

datatype error =
    StatusError StatusReason string
  | BucketExistsError string
  | OtherError string
  | Errorf string "fmtarg list"
and fmtarg =
    AString string
  | AError error
  | ARequest Request

fun IsNotFound :: "error \<Rightarrow> bool" where
  "IsNotFound (StatusError reason msg) = (reason = StatusReasonNotFound)"
| "IsNotFound (BucketExistsError msg) = False"
| "IsNotFound (OtherError msg) = False"
| "IsNotFound (Errorf format args) = False"

text \<open>
  Modelled from the spec: \<^verbatim>\<open>pErr.IsBucketExists\<close> (package \<^verbatim>\<open>api/errors\<close> is not among
  the sources) recognises the "resource already exists" signal of the plugin.
\<close>

fun IsBucketExists :: "error \<Rightarrow> bool" where
  "IsBucketExists (BucketExistsError msg) = True"
| "IsBucketExists (StatusError reason msg) = False"
| "IsBucketExists (OtherError msg) = False"
| "IsBucketExists (Errorf format args) = False"

text \<open>
  Modelled from the spec: the phases of a claim (package \<^verbatim>\<open>v1alpha1\<close> is not among
  the sources), and \<open>PhaseUnset\<close> for the zero value of the field.
\<close>

datatype ObjectBucketClaimStatusPhase = PhaseUnset | Pending | Bound | Released | Failed

text \<open>
  The API types, with the fields the reconciler reads or writes. A field of a nested
  struct keeps its path in its name (\<^verbatim>\<open>ob.Spec.ClaimRef\<close> is \<open>ob_Spec_ClaimRef\<close>).
\<close>

record ObjectBucketClaim =
  obc_Namespace :: string
  obc_Name :: string
  obc_Spec_StorageClassName :: string
  obc_Spec_BucketName :: string
  obc_Spec_ObjectBucketName :: string
  obc_Status_Phase :: ObjectBucketClaimStatusPhase

record ObjectReference =
  ref_Namespace :: string
  ref_Name :: string

record Endpoint =
  BucketName :: string

type_synonym Authentication = string

record ObjectBucket =
  ob_Name :: string
  ob_Finalizers :: "string list"
  ob_Spec_StorageClassName :: string
  ob_Spec_ClaimRef :: "ObjectReference option"
  ob_Spec_Endpoint :: Endpoint
  ob_Spec_Authentication :: Authentication

text \<open>The zero value \<^verbatim>\<open>v1alpha1.ObjectBucket{}\<close>.\<close>

definition zeroObjectBucket :: ObjectBucket where
  "zeroObjectBucket =
     \<lparr>ob_Name = [], ob_Finalizers = [], ob_Spec_StorageClassName = [],
      ob_Spec_ClaimRef = None, ob_Spec_Endpoint = \<lparr>BucketName = []\<rparr>,
      ob_Spec_Authentication = []\<rparr>"

record StorageClass =
  Provisioner :: string
  Parameters :: "string \<rightharpoonup> string"
  ReclaimPolicy :: "string option"

record BucketOptions =
  bo_ReclaimPolicy :: "string option"
  bo_BucketName :: string
  bo_ObjectBucketClaim :: "ObjectBucketClaim option"
  bo_Parameters :: "string \<rightharpoonup> string"

text \<open>
  \<^verbatim>\<open>corev1.Secret\<close> and \<^verbatim>\<open>corev1.ConfigMap\<close> are only handed from one helper to another.
\<close>

record Secret =
  secret_key :: ObjectKey
  secret_data :: Authentication

record ConfigMap =
  configMap_key :: ObjectKey
  configMap_data :: Endpoint

text \<open>\<^verbatim>\<open>Options\<close> and the reconciler itself (client and plugin are in the environment).\<close>

record Options =
  RetryInterval :: Duration
  RetryTimeout :: Duration

record ObjectBucketClaimReconciler =
  provisionerName :: string
  retryInterval :: Duration
  retryTimeout :: Duration

subsection \<open>Declarations of other files\<close>

text \<open>
  Package constants and standard library functions that the file uses and does not
  define, taken as parameters.
\<close>

record decls =
  defaultRetryBaseInterval :: Duration
  defaultRetryTimeout :: Duration
  objectBucketNameFormat :: string
  finalizer :: string
  StorageClassBucket :: string
  Sprintf :: "string \<Rightarrow> string list \<Rightarrow> string"
  ToLower :: "string \<Rightarrow> string"

subsection \<open>Trace, state and pointers\<close>

text \<open>
  One event for each call that leaves the file: the operands that matter and the result.
\<close>

datatype event =
    EvClaimForKey ObjectKey "ObjectBucketClaim option \<times> error option"
  | EvStorageClassForClaim "ObjectBucketClaim option" "StorageClass option \<times> error option"
  | EvComposeBucketName "ObjectBucketClaim option" "string \<times> error option"
  | EvProvision BucketOptions "ObjectBucket option \<times> error option"
  | EvGrant BucketOptions "ObjectBucket option \<times> error option"
  | EvDelete ObjectBucket "error option"
  | EvRevoke ObjectBucket "error option"
  | EvClaimRefForKey ObjectKey "ObjectReference option \<times> error option"
  | EvCreateObjectBucket ObjectBucket "ObjectBucket option \<times> error option"
  | EvCreateSecret ObjectBucketClaim Authentication "Secret option \<times> error option"
  | EvCreateConfigMap ObjectBucketClaim Endpoint "ConfigMap option \<times> error option"
  | EvUpdateClaim ObjectBucketClaim "error option"
  | EvConfigMapForClaimKey ObjectKey "ConfigMap option \<times> error option"
  | EvDeleteConfigMap "ConfigMap option" "error option"
  | EvSecretForClaimKey ObjectKey "Secret option \<times> error option"
  | EvDeleteSecret "Secret option" "error option"
  | EvStorageClassForOB ObjectBucket "StorageClass option \<times> error option"
  | EvDeleteObjectBucket "ObjectBucket option" "error option"
  | EvClientGet ObjectKey "ObjectBucket \<times> error option"
  | EvClientUpdate ObjectBucketClaim "error option"

record 'w state =
  trace :: "event list"
  heapTop :: nat
  world :: 'w

text \<open>
  The environment: the helpers of the package, the store client and the plugin.
  \<open>shouldProvision\<close> and \<open>scForNewBkt\<close> take no client and are functions of their
  operand alone.
\<close>

record 'w env =
  claimForKey :: "ObjectKey \<Rightarrow> 'w \<Rightarrow> (ObjectBucketClaim option \<times> error option) \<times> 'w"
  shouldProvision :: "ObjectBucketClaim option \<Rightarrow> bool"
  storageClassForClaim ::
    "ObjectBucketClaim option \<Rightarrow> 'w \<Rightarrow> (StorageClass option \<times> error option) \<times> 'w"
  scForNewBkt :: "StorageClass \<Rightarrow> bool"
  composeBucketName :: "ObjectBucketClaim option \<Rightarrow> 'w \<Rightarrow> (string \<times> error option) \<times> 'w"
  claimRefForKey :: "ObjectKey \<Rightarrow> 'w \<Rightarrow> (ObjectReference option \<times> error option) \<times> 'w"
  createObjectBucket ::
    "ObjectBucket \<Rightarrow> Duration \<Rightarrow> Duration \<Rightarrow> 'w \<Rightarrow> (ObjectBucket option \<times> error option) \<times> 'w"
  createSecret ::
    "ObjectBucketClaim \<Rightarrow> Authentication \<Rightarrow> Duration \<Rightarrow> Duration \<Rightarrow> 'w
      \<Rightarrow> (Secret option \<times> error option) \<times> 'w"
  createConfigMap ::
    "ObjectBucketClaim \<Rightarrow> Endpoint \<Rightarrow> Duration \<Rightarrow> Duration \<Rightarrow> 'w
      \<Rightarrow> (ConfigMap option \<times> error option) \<times> 'w"
  updateClaim :: "ObjectBucketClaim \<Rightarrow> 'w \<Rightarrow> error option \<times> 'w"
  configMapForClaimKey :: "ObjectKey \<Rightarrow> 'w \<Rightarrow> (ConfigMap option \<times> error option) \<times> 'w"
  deleteConfigMap :: "ConfigMap option \<Rightarrow> 'w \<Rightarrow> error option \<times> 'w"
  secretForClaimKey :: "ObjectKey \<Rightarrow> 'w \<Rightarrow> (Secret option \<times> error option) \<times> 'w"
  deleteSecret :: "Secret option \<Rightarrow> 'w \<Rightarrow> error option \<times> 'w"
  storageClassForOB :: "ObjectBucket \<Rightarrow> 'w \<Rightarrow> (StorageClass option \<times> error option) \<times> 'w"
  deleteObjectBucket :: "ObjectBucket option \<Rightarrow> 'w \<Rightarrow> error option \<times> 'w"
  clientGet :: "ObjectKey \<Rightarrow> ObjectBucket \<Rightarrow> 'w \<Rightarrow> (ObjectBucket \<times> error option) \<times> 'w"
  clientUpdate :: "ObjectBucketClaim \<Rightarrow> 'w \<Rightarrow> error option \<times> 'w"
  Provision :: "BucketOptions \<Rightarrow> 'w \<Rightarrow> (ObjectBucket option \<times> error option) \<times> 'w"
  Grant :: "BucketOptions \<Rightarrow> 'w \<Rightarrow> (ObjectBucket option \<times> error option) \<times> 'w"
  Delete :: "ObjectBucket \<Rightarrow> 'w \<Rightarrow> error option \<times> 'w"
  Revoke :: "ObjectBucket \<Rightarrow> 'w \<Rightarrow> error option \<times> 'w"

text \<open>A call: run the callee on the world, append the event with its result.\<close>

definition call :: "('r \<Rightarrow> event) \<Rightarrow> ('w \<Rightarrow> 'r \<times> 'w) \<Rightarrow> 'w state \<Rightarrow> 'r \<times> 'w state" where
  "call ev f s =
     (case f (world s) of (res, w') \<Rightarrow> (res, s\<lparr>trace := trace s @ [ev res], world := w'\<rparr>))"

text \<open>
  A pointer to an object bucket is nil (\<open>None\<close>) or an address with the value it points
  to. The file compares such pointers once (line 197), so addresses are kept for them:
  a non-nil pointer returned by a callee points to a variable that exists when the call
  returns, and gets the next address; the address of a composite literal is that of a
  variable made by the expression itself, the next address again.
\<close>

type_synonym 'a ptr = "(nat \<times> 'a) option"

definition returned :: "'a option \<Rightarrow> 'w state \<Rightarrow> 'a ptr \<times> 'w state" where
  "returned v s =
     (case v of
        None \<Rightarrow> (None, s)
      | Some x \<Rightarrow> (Some (heapTop s, x), s\<lparr>heapTop := Suc (heapTop s)\<rparr>))"

definition addressOfLiteral :: "'a \<Rightarrow> 'w state \<Rightarrow> 'a ptr \<times> 'w state" where
  "addressOfLiteral x s = (Some (heapTop s, x), s\<lparr>heapTop := Suc (heapTop s)\<rparr>)"

definition ptrEq :: "'a ptr \<Rightarrow> 'a ptr \<Rightarrow> bool" where
  "ptrEq p q = (map_option fst p = map_option fst q)"

definition pointee :: "'a ptr \<Rightarrow> 'a option" where
  "pointee p = map_option snd p"

text \<open>A function of the file returns, or panics on a nil pointer dereference.\<close>

datatype 'a outcome = Ret 'a | Panic

subsection \<open>The constructor (lines 48-72)\<close>

definition NewObjectBucketClaimReconciler ::
  "decls \<Rightarrow> string \<Rightarrow> Options \<Rightarrow> ObjectBucketClaimReconciler" where
  "NewObjectBucketClaimReconciler c name options0 =
     (let options1 =
            (if RetryInterval options0 <s defaultRetryBaseInterval c
             then options0\<lparr>RetryInterval := defaultRetryBaseInterval c\<rparr> else options0);
          options2 =
            (if RetryTimeout options1 <s defaultRetryTimeout c
             then options1\<lparr>RetryTimeout := defaultRetryTimeout c\<rparr> else options1)
      in \<lparr>provisionerName = ToLower c name,
          retryInterval = RetryInterval options2,
          retryTimeout = RetryTimeout options2\<rparr>)"

subsection \<open>The small methods (lines 291-327)\<close>

definition supportedProvisioner :: "ObjectBucketClaimReconciler \<Rightarrow> string \<Rightarrow> bool" where
  "supportedProvisioner r provisioner = (provisioner = provisionerName r)"

definition objectBucketForClaimKey ::
  "decls \<Rightarrow> 'w env \<Rightarrow> ObjectKey \<Rightarrow> 'w state \<Rightarrow> (ObjectBucket ptr \<times> error option) \<times> 'w state" where
  "objectBucketForClaimKey c e key s0 =
     (let (ob, s1) = addressOfLiteral zeroObjectBucket s0;
          obKey = \<lparr>Namespace = [],
                   Name = Sprintf c (objectBucketNameFormat c) [Namespace key, Name key]\<rparr>;
          ((fetched, err), s2) = call (EvClientGet obKey) (clientGet e obKey zeroObjectBucket) s1
      in case err of
           Some x \<Rightarrow> ((None, Some (Errorf ''error listing object buckets: %v'' [AError x])), s2)
         | None \<Rightarrow> ((map_option (\<lambda>(a, v). (a, fetched)) ob, None), s2))"

definition updateObjectBucketClaimPhase ::
  "'w env \<Rightarrow> ObjectBucketClaim \<Rightarrow> ObjectBucketClaimStatusPhase \<Rightarrow> 'w state
    \<Rightarrow> (ObjectBucketClaim option \<times> error option) \<times> 'w state" where
  "updateObjectBucketClaimPhase e obc phase s0 =
     (let obc1 = obc\<lparr>obc_Status_Phase := phase\<rparr>;
          (err, s1) = call (EvClientUpdate obc1) (clientUpdate e obc1) s0
      in case err of
           Some x \<Rightarrow> ((None, Some (Errorf ''error updating phase: %v'' [AError x])), s1)
         | None \<Rightarrow> ((Some obc1, None), s1))"

text \<open>The three deletes log their errors and go on, so nothing is returned.\<close>

definition deleteResources ::
  "'w env \<Rightarrow> ObjectBucket ptr \<Rightarrow> ConfigMap option \<Rightarrow> Secret option \<Rightarrow> 'w state \<Rightarrow> 'w state" where
  "deleteResources e ob cm sec s0 =
     (let (err1, s1) = call (EvDeleteObjectBucket (pointee ob)) (deleteObjectBucket e (pointee ob)) s0;
          (err2, s2) = call (EvDeleteSecret sec) (deleteSecret e sec) s1;
          (err3, s3) = call (EvDeleteConfigMap cm) (deleteConfigMap e cm) s2
      in s3)"

subsection \<open>Deprovisioning (lines 227-289)\<close>

text \<open>
  Lines 251-288: the binding is looked up, its class decides between \<open>Delete\<close> and
  \<open>Revoke\<close>, and the binding is deleted after the plugin call.
\<close>

definition deprovisionBinding ::
  "decls \<Rightarrow> 'w env \<Rightarrow> ObjectKey \<Rightarrow> 'w state \<Rightarrow> error option \<times> 'w state" where
  "deprovisionBinding c e key s4 =
     (let ((ob, err5), s5) = objectBucketForClaimKey c e key s4
      in case err5 of
           Some x \<Rightarrow>
             if IsNotFound x then (None, s5)
             else (Some (Errorf ''error getting objectBucket for key: %v'' [AError x]), s5)
         | None \<Rightarrow>
            (case ob of
               None \<Rightarrow> (None, s5)
             | Some (a, obv) \<Rightarrow>
                let ((class, err6), s6) =
                      call (EvStorageClassForOB obv) (storageClassForOB e obv) s5
                in case (err6, class) of
                     (Some x, _) \<Rightarrow>
                       (Some (Errorf ''error getting storageclass from OB %q''
                                [AString (ob_Name obv)]), s6)
                   | (None, None) \<Rightarrow>
                       (Some (Errorf ''error getting storageclass from OB %q''
                                [AString (ob_Name obv)]), s6)
                   | (None, Some cls) \<Rightarrow>
                      let newBkt = scForNewBkt e cls;
                          (err7, s7) =
                            (if newBkt then call (EvDelete obv) (Delete e obv) s6
                             else call (EvRevoke obv) (Revoke e obv) s6)
                      in case err7 of
                           Some x \<Rightarrow>
                             if newBkt
                             then (Some (Errorf ''provisioner error deleting bucket %v''
                                           [AError x]), s7)
                             else (Some (Errorf
                                           ''provisioner error revoking access to bucket %v''
                                           [AError x]), s7)
                         | None \<Rightarrow>
                            let (err8, s8) =
                                  call (EvDeleteObjectBucket (Some obv))
                                    (deleteObjectBucket e (Some obv)) s7
                            in case err8 of
                                 None \<Rightarrow> (None, s8)
                               | Some x \<Rightarrow>
                                  if IsNotFound x then (None, s8)
                                  else (Some (Errorf ''error deleting objectBucket %v''
                                                [AString (ob_Name obv)]), s8)))"

text \<open>
  \<open>handleDeleteClaim\<close>: lines 231-249 delete the config map and the secret (a failed
  lookup is logged, a failed delete is returned), then the binding is dealt with.
\<close>

definition handleDeleteClaim ::
  "decls \<Rightarrow> 'w env \<Rightarrow> ObjectKey \<Rightarrow> 'w state \<Rightarrow> error option \<times> 'w state" where
  "handleDeleteClaim c e key s0 =
     (let ((cm, err1), s1) = call (EvConfigMapForClaimKey key) (configMapForClaimKey e key) s0;
          (err2, s2) =
            (if err1 = None then call (EvDeleteConfigMap cm) (deleteConfigMap e cm) s1
             else (None, s1))
      in if err2 \<noteq> None then (err2, s2)
      else
        let ((sec, err3), s3) = call (EvSecretForClaimKey key) (secretForClaimKey e key) s2;
            (err4, s4) =
              (if err3 = None then call (EvDeleteSecret sec) (deleteSecret e sec) s3
               else (None, s3))
        in if err4 \<noteq> None then (err4, s4)
        else deprovisionBinding c e key s4)"

subsection \<open>Provisioning (lines 130-225)\<close>

text \<open>The local variables that the deferred function of line 149 captures.\<close>

record locals =
  ob :: "ObjectBucket ptr"
  secret :: "Secret option"
  configMap :: "ConfigMap option"
  err :: "error option"

text \<open>
  Modelled from the spec: \<^verbatim>\<open>setObjectBucketName\<close> (not among the sources) assigns the
  binding its deterministic name, the one that \<open>objectBucketForClaimKey\<close> looks up.
\<close>

definition setObjectBucketName :: "decls \<Rightarrow> ObjectBucket \<Rightarrow> ObjectKey \<Rightarrow> ObjectBucket" where
  "setObjectBucketName c obv key =
     obv\<lparr>ob_Name := Sprintf c (objectBucketNameFormat c) [Namespace key, Name key]\<rparr>"

text \<open>
  The deferred function (lines 149-160). It reads the variable \<open>err\<close>, not the value
  being returned, and it returns nothing: the function's result has no name.
\<close>

definition deferredCleanup :: "'w env \<Rightarrow> bool \<Rightarrow> locals \<Rightarrow> 'w state \<Rightarrow> 'w state" where
  "deferredCleanup e isDynamicProvisioning l s0 =
     (case err l of
        None \<Rightarrow> s0
      | Some x \<Rightarrow>
         let s1 =
               (case ob l of
                  Some (a, obv) \<Rightarrow>
                    if \<not> IsBucketExists x \<and> isDynamicProvisioning
                    then snd (call (EvDelete obv) (Delete e obv) s0)
                    else s0
                | None \<Rightarrow> s0)
         in deleteResources e (ob l) (configMap l) (secret l) s1)"

text \<open>
  Lines 201-224, entered with the plugin's object bucket (not nil) and the claim (not nil):
  the binding is named and persisted, then the secret and the config map, then the claim
  is updated. The result is the value returned (or a panic), the local variables at that
  moment, and the state. The error of \<^verbatim>\<open>claimRefForKey\<close> (line 203) is assigned to
  \<open>err\<close> and overwritten at line 206 before anything reads it.
\<close>

definition persistArtifacts ::
  "decls \<Rightarrow> 'w env \<Rightarrow> ObjectBucketClaimReconciler \<Rightarrow> ObjectKey \<Rightarrow> ObjectBucketClaim
    \<Rightarrow> string \<Rightarrow> locals \<Rightarrow> ObjectBucket \<Rightarrow> 'w state
    \<Rightarrow> error option outcome \<times> locals \<times> 'w state" where
  "persistArtifacts c e r key claim bucketName l2 obv0 s4 =
     (let obv1 = setObjectBucketName c obv0 key;
          obv2 = obv1\<lparr>ob_Spec_StorageClassName := obc_Spec_StorageClassName claim\<rparr>;
          ((claimRef, err3), s5) = call (EvClaimRefForKey key) (claimRefForKey e key) s4;
          obv3 = obv2\<lparr>ob_Spec_ClaimRef := claimRef\<rparr>;
          obv4 = obv3\<lparr>ob_Finalizers := [finalizer c]\<rparr>;
          ((ob6v, err6), s6) =
            call (EvCreateObjectBucket obv4)
              (createObjectBucket e obv4 (retryInterval r) (retryTimeout r)) s5;
          (ob6, s7) = returned ob6v s6;
          l6 = l2\<lparr>ob := ob6, err := err6\<rparr>
      in case err6 of
           Some x \<Rightarrow> (Ret (Some x), l6, s7)
         | None \<Rightarrow>
            (case ob6 of
               None \<Rightarrow> (Panic, l6, s7)
             | Some (a6, obv6) \<Rightarrow>
                let ((sec, err8), s8) =
                      call (EvCreateSecret claim (ob_Spec_Authentication obv6))
                        (createSecret e claim (ob_Spec_Authentication obv6)
                           (retryInterval r) (retryTimeout r)) s7;
                    l8 = l6\<lparr>secret := sec, err := err8\<rparr>
                in case err8 of
                     Some x \<Rightarrow> (Ret (Some x), l8, s8)
                   | None \<Rightarrow>
                      let ((cm, err9), s9) =
                            call (EvCreateConfigMap claim (ob_Spec_Endpoint obv6))
                              (createConfigMap e claim (ob_Spec_Endpoint obv6)
                                 (retryInterval r) (retryTimeout r)) s8;
                          l9 = l8\<lparr>configMap := cm, err := err9\<rparr>
                      in case err9 of
                           Some x \<Rightarrow> (Ret (Some x), l9, s9)
                         | None \<Rightarrow>
                            let claim1 = claim\<lparr>obc_Spec_ObjectBucketName := ob_Name obv6\<rparr>;
                                claim2 = claim1\<lparr>obc_Spec_BucketName := bucketName\<rparr>;
                                (err10, s10) =
                                  call (EvUpdateClaim claim2) (updateClaim e claim2) s9;
                                l10 = l9\<lparr>err := err10\<rparr>
                            in case err10 of
                                 Some x \<Rightarrow> (Ret (Some x), l10, s10)
                               | None \<Rightarrow> (Ret None, l10, s10)))"

text \<open>
  Lines 162-224: the body after the deferred function is registered. A nil object bucket
  from a plugin that reported no error, or a nil claim, is dereferenced at lines 201-202.
\<close>

definition provisionBody ::
  "decls \<Rightarrow> 'w env \<Rightarrow> ObjectBucketClaimReconciler \<Rightarrow> ObjectKey \<Rightarrow> ObjectBucketClaim option
    \<Rightarrow> StorageClass option \<Rightarrow> bool \<Rightarrow> 'w state
    \<Rightarrow> error option outcome \<times> locals \<times> 'w state" where
  "provisionBody c e r key obc class isDynamicProvisioning s0 =
     (let l0 = \<lparr>ob = None, secret = None, configMap = None, err = None\<rparr>
      in case class of
           None \<Rightarrow> (Panic, l0, s0)
         | Some cls \<Rightarrow>
            let ((bucketName, err1), s1) =
                  (if isDynamicProvisioning
                   then call (EvComposeBucketName obc) (composeBucketName e obc) s0
                   else ((case Parameters cls (StorageClassBucket c) of
                            None \<Rightarrow> [] | Some v \<Rightarrow> v, None), s0));
                l1 = l0\<lparr>err := err1\<rparr>
            in case err1 of
                 Some x \<Rightarrow>
                   (Ret (Some (Errorf ''error composing bucket name: %v'' [AError x])), l1, s1)
               | None \<Rightarrow>
                  if length bucketName = 0
                  then (Ret (Some (Errorf ''bucket name missing'' [])), l1, s1)
                  else if \<not> shouldProvision e obc then (Ret None, l1, s1)
                  else
                    let options =
                          \<lparr>bo_ReclaimPolicy = ReclaimPolicy cls, bo_BucketName = bucketName,
                           bo_ObjectBucketClaim = obc, bo_Parameters = Parameters cls\<rparr>;
                        verb = (if \<not> isDynamicProvisioning then ''granting access to''
                                else ''provisioning'');
                        ((ob2v, err2), s2) =
                          (if isDynamicProvisioning
                           then call (EvProvision options) (Provision e options) s1
                           else call (EvGrant options) (Grant e options) s1);
                        (ob2, s3) = returned ob2v s2;
                        l2 = l1\<lparr>ob := ob2, err := err2\<rparr>
                    in case err2 of
                         Some x \<Rightarrow>
                           (Ret (Some (Errorf ''error %s bucket: %v'' [AString verb, AError x])),
                            l2, s3)
                       | None \<Rightarrow>
                          let (literal, s4) = addressOfLiteral zeroObjectBucket s3
                          in if ptrEq ob2 literal
                             then (Ret (Some (Errorf
                                     ''provisioner returned nil/empty object bucket'' [])), l2, s4)
                             else
                               (case (ob2, obc) of
                                  (None, _) \<Rightarrow> (Panic, l2, s4)
                                | (Some (a, obv0), None) \<Rightarrow> (Panic, l2, s4)
                                | (Some (a, obv0), Some claim) \<Rightarrow>
                                    persistArtifacts c e r key claim bucketName l2 obv0 s4))"

text \<open>
  \<open>handleProvisionClaim\<close>: the claim is fetched again (the parameter \<open>obc\<close> is
  overwritten at line 139), then the body runs and the deferred function after it, on a
  return and on a panic alike.
\<close>

definition handleProvisionClaim ::
  "decls \<Rightarrow> 'w env \<Rightarrow> ObjectBucketClaimReconciler \<Rightarrow> ObjectKey \<Rightarrow> ObjectBucketClaim option
    \<Rightarrow> StorageClass option \<Rightarrow> bool \<Rightarrow> 'w state \<Rightarrow> error option outcome \<times> 'w state" where
  "handleProvisionClaim c e r key obc0 class isDynamicProvisioning s0 =
     (let ((obc, err0), s1) = call (EvClaimForKey key) (claimForKey e key) s0
      in case err0 of
           Some x \<Rightarrow>
             if IsNotFound x
             then (Ret (Some (Errorf ''OBC was lost before we could provision: %v'' [AError x])),
                   s1)
             else (Ret (Some x), s1)
         | None \<Rightarrow>
            let (out, l, s2) = provisionBody c e r key obc class isDynamicProvisioning s1
            in (out, deferredCleanup e isDynamicProvisioning l s2))"

subsection \<open>The entry point (lines 77-126)\<close>

definition Reconcile ::
  "decls \<Rightarrow> 'w env \<Rightarrow> ObjectBucketClaimReconciler \<Rightarrow> Request \<Rightarrow> 'w state
    \<Rightarrow> (Result \<times> error option) outcome \<times> 'w state" where
  "Reconcile c e r request s0 =
     (let done = \<lparr>Requeue = False, RequeueAfter = 0\<rparr>;
          ((obc, err0), s1) =
            call (EvClaimForKey (NamespacedName request))
              (claimForKey e (NamespacedName request)) s0
      in case err0 of
           Some x \<Rightarrow>
             if IsNotFound x
             then let (err1, s2) = handleDeleteClaim c e (NamespacedName request) s1
                  in (Ret (done, err1), s2)
             else (Ret (done, Some (Errorf ''error getting claim for request key %q''
                                      [ARequest request])), s1)
         | None \<Rightarrow>
            if \<not> shouldProvision e obc then (Ret (done, None), s1)
            else
              let ((class, err2), s2) =
                    call (EvStorageClassForClaim obc) (storageClassForClaim e obc) s1
              in case err2 of
                   Some x \<Rightarrow> (Ret (done, Some x), s2)
                 | None \<Rightarrow>
                    (case class of
                       None \<Rightarrow> (Panic, s2)
                     | Some cls \<Rightarrow>
                        if \<not> supportedProvisioner r (Provisioner cls) then (Ret (done, None), s2)
                        else
                          let greenfield = scForNewBkt e cls;
                              (out, s3) =
                                handleProvisionClaim c e r (NamespacedName request) obc class
                                  greenfield s2
                          in (case out of
                                Panic \<Rightarrow> (Panic, s3)
                              | Ret err3 \<Rightarrow> (Ret (done, err3), s3))))"

subsection \<open>Reading the trace\<close>

text \<open>The events that a run from \<open>s\<close> to \<open>s'\<close> appended.\<close>

definition newEvents :: "'w state \<Rightarrow> 'w state \<Rightarrow> event list" where
  "newEvents s s' = drop (length (trace s)) (trace s')"

fun isPluginDelete :: "event \<Rightarrow> bool" where
  "isPluginDelete (EvDelete obv res) = True"
| "isPluginDelete ev = False"

fun isDeprovisionCall :: "event \<Rightarrow> bool" where
  "isDeprovisionCall (EvDelete obv res) = True"
| "isDeprovisionCall (EvRevoke obv res) = True"
| "isDeprovisionCall ev = False"

fun isDeleteObjectBucket :: "event \<Rightarrow> bool" where
  "isDeleteObjectBucket (EvDeleteObjectBucket obv res) = True"
| "isDeleteObjectBucket ev = False"




subsection \<open>A concrete environment\<close>

text \<open>
  Sample values for the parameters, used to run the definitions: a claim \<open>a/b\<close> of a
  class without a bucket name (dynamic), helpers and a plugin that succeed, and a world
  without content. The formatter interprets the verb \<^verbatim>\<open>%s\<close> only.
\<close>

fun sprintfS :: "string \<Rightarrow> string list \<Rightarrow> string" where
  "sprintfS [] args = []"
| "sprintfS [ch] args = [ch]"
| "sprintfS (ch1 # ch2 # fmt) args =
     (if ch1 = CHR ''%'' \<and> ch2 = CHR ''s''
      then (case args of [] \<Rightarrow> sprintfS fmt [] | a # as \<Rightarrow> a @ sprintfS fmt as)
      else ch1 # sprintfS (ch2 # fmt) args)"

definition decls0 :: decls where
  "decls0 =
     \<lparr>defaultRetryBaseInterval = 3000000000,
      defaultRetryTimeout = 30000000000,
      objectBucketNameFormat = ''obc-%s-%s'',
      finalizer = ''objectbucket.io/finalizer'',
      StorageClassBucket = ''bucketName'',
      Sprintf = sprintfS,
      ToLower = (\<lambda>name. name)\<rparr>"

definition claimA :: ObjectBucketClaim where
  "claimA =
     \<lparr>obc_Namespace = ''a'', obc_Name = ''b'', obc_Spec_StorageClassName = ''sc'',
      obc_Spec_BucketName = [], obc_Spec_ObjectBucketName = [], obc_Status_Phase = Pending\<rparr>"

definition classA :: StorageClass where
  "classA = \<lparr>Provisioner = ''p'', Parameters = Map.empty, ReclaimPolicy = Some ''Delete''\<rparr>"

definition keyA :: ObjectKey where
  "keyA = \<lparr>Namespace = ''a'', Name = ''b''\<rparr>"

definition bucketA :: ObjectBucket where
  "bucketA =
     \<lparr>ob_Name = [], ob_Finalizers = [], ob_Spec_StorageClassName = [],
      ob_Spec_ClaimRef = None, ob_Spec_Endpoint = \<lparr>BucketName = ''b-1''\<rparr>,
      ob_Spec_Authentication = ''k''\<rparr>"

definition reconcilerA :: ObjectBucketClaimReconciler where
  "reconcilerA = \<lparr>provisionerName = ''p'', retryInterval = 3000000000,
                  retryTimeout = 30000000000\<rparr>"

definition state0 :: "unit state" where
  "state0 = \<lparr>trace = [], heapTop = 0, world = ()\<rparr>"

definition env0 :: "unit env" where
  "env0 =
     \<lparr>claimForKey = (\<lambda>key w. ((Some claimA, None), w)),
      shouldProvision =
        (\<lambda>obc. case obc of None \<Rightarrow> False | Some cl \<Rightarrow> obc_Spec_ObjectBucketName cl = []),
      storageClassForClaim = (\<lambda>obc w. ((Some classA, None), w)),
      scForNewBkt = (\<lambda>cls. Parameters cls ''bucketName'' = None),
      composeBucketName = (\<lambda>obc w. ((''b-1'', None), w)),
      claimRefForKey =
        (\<lambda>key w. ((Some \<lparr>ref_Namespace = Namespace key, ref_Name = Name key\<rparr>, None), w)),
      createObjectBucket = (\<lambda>obv interval timeout w. ((Some obv, None), w)),
      createSecret =
        (\<lambda>claim auth interval timeout w.
           ((Some \<lparr>secret_key = \<lparr>Namespace = obc_Namespace claim, Name = obc_Name claim\<rparr>,
                   secret_data = auth\<rparr>, None), w)),
      createConfigMap =
        (\<lambda>claim ep interval timeout w.
           ((Some \<lparr>configMap_key = \<lparr>Namespace = obc_Namespace claim, Name = obc_Name claim\<rparr>,
                   configMap_data = ep\<rparr>, None), w)),
      updateClaim = (\<lambda>claim w. (None, w)),
      configMapForClaimKey =
        (\<lambda>key w. ((Some \<lparr>configMap_key = key, configMap_data = \<lparr>BucketName = ''b-1''\<rparr>\<rparr>,
                     None), w)),
      deleteConfigMap = (\<lambda>cm w. (None, w)),
      secretForClaimKey =
        (\<lambda>key w. ((Some \<lparr>secret_key = key, secret_data = ''k''\<rparr>, None), w)),
      deleteSecret = (\<lambda>sec w. (None, w)),
      storageClassForOB = (\<lambda>obv w. ((Some classA, None), w)),
      deleteObjectBucket = (\<lambda>obv w. (None, w)),
      clientGet = (\<lambda>key into w. ((bucketA\<lparr>ob_Name := Name key\<rparr>, None), w)),
      clientUpdate = (\<lambda>claim w. (None, w)),
      Provision = (\<lambda>options w. ((Some bucketA, None), w)),
      Grant = (\<lambda>options w. ((Some bucketA, None), w)),
      Delete = (\<lambda>obv w. (None, w)),
      Revoke = (\<lambda>obv w. (None, w))\<rparr>"

subsection \<open>Variations of the concrete environment\<close>

definition requestA :: Request where
  "requestA = \<lparr>NamespacedName = keyA\<rparr>"



definition envEmptyBucket :: "unit env" where
  "envEmptyBucket = env0\<lparr>Provision := (\<lambda>options w. ((Some zeroObjectBucket, None), w))\<rparr>"

definition envBindingNotFound :: "unit env" where
  "envBindingNotFound =
     env0\<lparr>clientGet :=
            (\<lambda>key into w. ((into, Some (StatusError StatusReasonNotFound ''not found'')), w))\<rparr>"

definition envClassMissing :: "unit env" where
  "envClassMissing =
     env0\<lparr>storageClassForClaim :=
            (\<lambda>obc w. ((None, Some (StatusError StatusReasonNotFound ''no such class'')), w))\<rparr>"

definition envOtherProvisioner :: "unit env" where
  "envOtherProvisioner =
     env0\<lparr>storageClassForClaim := (\<lambda>obc w. ((Some (classA\<lparr>Provisioner := ''q''\<rparr>), None), w))\<rparr>"

definition envPluginDeleteFails :: "unit env" where
  "envPluginDeleteFails = env0\<lparr>Delete := (\<lambda>obv w. (Some (OtherError ''busy''), w))\<rparr>"

subsection \<open>More readers of the trace\<close>

text \<open>The name of the function that an event is a call of.\<close>

fun callName :: "event \<Rightarrow> string" where
  "callName (EvClaimForKey key res) = ''claimForKey''"
| "callName (EvStorageClassForClaim obc res) = ''storageClassForClaim''"
| "callName (EvComposeBucketName obc res) = ''composeBucketName''"
| "callName (EvProvision options res) = ''Provision''"
| "callName (EvGrant options res) = ''Grant''"
| "callName (EvDelete obv res) = ''Delete''"
| "callName (EvRevoke obv res) = ''Revoke''"
| "callName (EvClaimRefForKey key res) = ''claimRefForKey''"
| "callName (EvCreateObjectBucket obv res) = ''createObjectBucket''"
| "callName (EvCreateSecret claim auth res) = ''createSecret''"
| "callName (EvCreateConfigMap claim ep res) = ''createConfigMap''"
| "callName (EvUpdateClaim claim res) = ''updateClaim''"
| "callName (EvConfigMapForClaimKey key res) = ''configMapForClaimKey''"
| "callName (EvDeleteConfigMap cm res) = ''deleteConfigMap''"
| "callName (EvSecretForClaimKey key res) = ''secretForClaimKey''"
| "callName (EvDeleteSecret sec res) = ''deleteSecret''"
| "callName (EvStorageClassForOB obv res) = ''storageClassForOB''"
| "callName (EvDeleteObjectBucket obv res) = ''deleteObjectBucket''"
| "callName (EvClientGet key res) = ''Client.Get''"
| "callName (EvClientUpdate claim res) = ''Client.Update''"

fun isProvision :: "event \<Rightarrow> bool" where
  "isProvision (EvProvision options res) = True"
| "isProvision ev = False"

text \<open>The phases of the claims that a run handed to the store for writing.\<close>

fun phasesWritten :: "event list \<Rightarrow> ObjectBucketClaimStatusPhase list" where
  "phasesWritten [] = []"
| "phasesWritten (EvUpdateClaim claim res # evs) = obc_Status_Phase claim # phasesWritten evs"
| "phasesWritten (EvClientUpdate claim res # evs) = obc_Status_Phase claim # phasesWritten evs"
| "phasesWritten (ev # evs) = phasesWritten evs"

text \<open>
  The binding names that a run used: the name it looked a binding up by, and the name of
  a binding it handed to the store for creation.
\<close>

fun bindingNames :: "event list \<Rightarrow> string list" where
  "bindingNames [] = []"
| "bindingNames (EvClientGet key res # evs) = Name key # bindingNames evs"
| "bindingNames (EvCreateObjectBucket obv res # evs) = ob_Name obv # bindingNames evs"
| "bindingNames (ev # evs) = bindingNames evs"

subsection \<open>What a provisioning pass holds, read from the trace\<close>













section \<open>Properties\<close>

subsection \<open>Evaluation of the concrete environment\<close>

lemma env0_fields:
  "claimForKey env0 = (\<lambda>key w. ((Some claimA, None), w))"
  "shouldProvision env0 =
     (\<lambda>obc. case obc of None \<Rightarrow> False | Some cl \<Rightarrow> obc_Spec_ObjectBucketName cl = [])"
  "storageClassForClaim env0 = (\<lambda>obc w. ((Some classA, None), w))"
  "scForNewBkt env0 = (\<lambda>cls. Parameters cls ''bucketName'' = None)"
  "composeBucketName env0 = (\<lambda>obc w. ((''b-1'', None), w))"
  "claimRefForKey env0 =
     (\<lambda>key w. ((Some \<lparr>ref_Namespace = Namespace key, ref_Name = Name key\<rparr>, None), w))"
  "createObjectBucket env0 = (\<lambda>obv interval timeout w. ((Some obv, None), w))"
  "createSecret env0 =
     (\<lambda>claim auth interval timeout w.
        ((Some \<lparr>secret_key = \<lparr>Namespace = obc_Namespace claim, Name = obc_Name claim\<rparr>,
                secret_data = auth\<rparr>, None), w))"
  "createConfigMap env0 =
     (\<lambda>claim ep interval timeout w.
        ((Some \<lparr>configMap_key = \<lparr>Namespace = obc_Namespace claim, Name = obc_Name claim\<rparr>,
                configMap_data = ep\<rparr>, None), w))"
  "updateClaim env0 = (\<lambda>claim w. (None, w))"
  "configMapForClaimKey env0 =
     (\<lambda>key w. ((Some \<lparr>configMap_key = key, configMap_data = \<lparr>BucketName = ''b-1''\<rparr>\<rparr>,
                  None), w))"
  "deleteConfigMap env0 = (\<lambda>cm w. (None, w))"
  "secretForClaimKey env0 = (\<lambda>key w. ((Some \<lparr>secret_key = key, secret_data = ''k''\<rparr>, None), w))"
  "deleteSecret env0 = (\<lambda>sec w. (None, w))"
  "storageClassForOB env0 = (\<lambda>obv w. ((Some classA, None), w))"
  "deleteObjectBucket env0 = (\<lambda>obv w. (None, w))"
  "clientGet env0 = (\<lambda>key into w. ((bucketA\<lparr>ob_Name := Name key\<rparr>, None), w))"
  "clientUpdate env0 = (\<lambda>claim w. (None, w))"
  "Provision env0 = (\<lambda>options w. ((Some bucketA, None), w))"
  "Grant env0 = (\<lambda>options w. ((Some bucketA, None), w))"
  "Delete env0 = (\<lambda>obv w. (None, w))"
  "Revoke env0 = (\<lambda>obv w. (None, w))"
  by (simp_all add: env0_def)

lemmas run_defs =
  Reconcile_def handleProvisionClaim_def provisionBody_def persistArtifacts_def
  deferredCleanup_def deleteResources_def handleDeleteClaim_def deprovisionBinding_def objectBucketForClaimKey_def
  supportedProvisioner_def setObjectBucketName_def call_def returned_def addressOfLiteral_def
  ptrEq_def pointee_def newEvents_def Let_def

lemmas sample_defs =
  env0_fields state0_def decls0_def claimA_def classA_def keyA_def requestA_def bucketA_def
  reconcilerA_def zeroObjectBucket_def

subsection \<open>The trace only grows\<close>

lemma call_trace:
  "call ev f s = (res, s') \<Longrightarrow> trace s' = trace s @ [ev res] \<and> heapTop s' = heapTop s"
  by (auto simp: call_def split: prod.splits)

lemma newEvents_append [simp]: "trace s' = trace s @ evs \<Longrightarrow> newEvents s s' = evs"
  by (simp add: newEvents_def)

subsection \<open>The constructor\<close>

text \<open>
  C9. The constructor stores the retry interval and the retry timeout floor-clamped: a
  value below the default minimum (a signed comparison of durations) is replaced by the
  minimum, any other value is kept.
\<close>

theorem retry_options_floor_clamped:
  "retryInterval (NewObjectBucketClaimReconciler c name options) =
     (if RetryInterval options <s defaultRetryBaseInterval c
      then defaultRetryBaseInterval c else RetryInterval options)
   \<and> retryTimeout (NewObjectBucketClaimReconciler c name options) =
     (if RetryTimeout options <s defaultRetryTimeout c
      then defaultRetryTimeout c else RetryTimeout options)"
  by (simp add: NewObjectBucketClaimReconciler_def Let_def)

theorem retry_options_floor_clamped_witness:
  "retryInterval (NewObjectBucketClaimReconciler decls0 ''p''
      \<lparr>RetryInterval = 1000000000, RetryTimeout = 60000000000\<rparr>) = 3000000000
   \<and> retryTimeout (NewObjectBucketClaimReconciler decls0 ''p''
      \<lparr>RetryInterval = 1000000000, RetryTimeout = 60000000000\<rparr>) = 60000000000"
  using retry_options_floor_clamped [of decls0 "''p''"
      "\<lparr>RetryInterval = 1000000000, RetryTimeout = 60000000000\<rparr>"]
  by (simp add: decls0_def word_sless_alt)

subsection \<open>The entry point\<close>

text \<open>
  C10. Whatever the request, the environment and the state, when \<open>Reconcile\<close> returns,
  the result it returns is the value \<open>done\<close> of line 83: \<open>Requeue\<close> is false and no
  delay is asked for. Only the error tells the dispatcher to retry.
\<close>

theorem reconcile_never_requeues:
  assumes "fst (Reconcile c e r request s) = Ret (res, er)"
  shows "Requeue res = False \<and> RequeueAfter res = 0"
  using assms
  by (auto simp: Reconcile_def Let_def split: prod.splits option.splits if_splits outcome.splits)

theorem reconcile_never_requeues_witness:
  "fst (Reconcile decls0 env0 reconcilerA requestA state0)
     = Ret (\<lparr>Requeue = False, RequeueAfter = 0\<rparr>, None)
   \<and> Requeue \<lparr>Requeue = False, RequeueAfter = 0\<rparr> = False
   \<and> RequeueAfter \<lparr>Requeue = False, RequeueAfter = 0\<rparr> = 0"
proof -
  have run: "fst (Reconcile decls0 env0 reconcilerA requestA state0)
      = Ret (\<lparr>Requeue = False, RequeueAfter = 0\<rparr>, None)"
    by (simp add: run_defs sample_defs)
  from reconcile_never_requeues [OF run] run show ?thesis by simp
qed

text \<open>
  C5, as the code has it (the specification has a missing class skipped without error).
  For a claim that exists and asks for provisioning: when the class resolves and its
  provisioner is not the registered name, \<open>Reconcile\<close> returns no error and calls
  nothing further; when resolving the class fails, \<open>Reconcile\<close> returns that error
  (lines 112-114), it does not skip.
\<close>

theorem reconcile_class_resolution:
  assumes fetched: "claimForKey e (NamespacedName request) (world s) = ((obc, None), w1)"
    and wanted: "shouldProvision e obc"
    and resolved: "storageClassForClaim e obc w1 = ((class, er), w2)"
  shows "(\<forall>cls. er = None \<and> class = Some cls \<and> Provisioner cls \<noteq> provisionerName r \<longrightarrow>
            Reconcile c e r request s =
              (Ret (\<lparr>Requeue = False, RequeueAfter = 0\<rparr>, None),
               s\<lparr>trace := trace s @ [EvClaimForKey (NamespacedName request) (obc, None),
                                       EvStorageClassForClaim obc (class, er)],
                 world := w2\<rparr>))
       \<and> (\<forall>x. er = Some x \<longrightarrow>
            Reconcile c e r request s =
              (Ret (\<lparr>Requeue = False, RequeueAfter = 0\<rparr>, Some x),
               s\<lparr>trace := trace s @ [EvClaimForKey (NamespacedName request) (obc, None),
                                       EvStorageClassForClaim obc (class, er)],
                 world := w2\<rparr>))"
  using assms by (simp add: Reconcile_def supportedProvisioner_def call_def)

theorem reconcile_class_resolution_witness:
  "Reconcile decls0 envOtherProvisioner reconcilerA requestA state0 =
     (Ret (\<lparr>Requeue = False, RequeueAfter = 0\<rparr>, None),
      state0\<lparr>trace := trace state0 @
                [EvClaimForKey (NamespacedName requestA) (Some claimA, None),
                 EvStorageClassForClaim (Some claimA)
                   (Some (classA\<lparr>Provisioner := ''q''\<rparr>), None)],
             world := ()\<rparr>)
   \<and> fst (Reconcile decls0 envClassMissing reconcilerA requestA state0) =
     Ret (\<lparr>Requeue = False, RequeueAfter = 0\<rparr>,
          Some (StatusError StatusReasonNotFound ''no such class''))"
proof -
  have fetched: "claimForKey envOtherProvisioner (NamespacedName requestA) (world state0)
      = ((Some claimA, None), ())"
    by (simp add: envOtherProvisioner_def env0_fields)
  have wanted: "shouldProvision envOtherProvisioner (Some claimA)"
    by (simp add: envOtherProvisioner_def env0_fields claimA_def)
  have resolved: "storageClassForClaim envOtherProvisioner (Some claimA) ()
      = ((Some (classA\<lparr>Provisioner := ''q''\<rparr>), None), ())"
    by (simp add: envOtherProvisioner_def)
  have other: "Provisioner (classA\<lparr>Provisioner := ''q''\<rparr>) \<noteq> provisionerName reconcilerA"
    by (simp add: reconcilerA_def)
  have fetched': "claimForKey envClassMissing (NamespacedName requestA) (world state0)
      = ((Some claimA, None), ())"
    by (simp add: envClassMissing_def env0_fields)
  have wanted': "shouldProvision envClassMissing (Some claimA)"
    by (simp add: envClassMissing_def env0_fields claimA_def)
  have missing: "storageClassForClaim envClassMissing (Some claimA) ()
      = ((None, Some (StatusError StatusReasonNotFound ''no such class'')), ())"
    by (simp add: envClassMissing_def)
  from reconcile_class_resolution [OF fetched wanted resolved, of reconcilerA decls0] other
    reconcile_class_resolution [OF fetched' wanted' missing, of reconcilerA decls0]
  show ?thesis by simp
qed

theorem reconcile_missing_class_counterexample:
  "claimForKey envClassMissing (NamespacedName requestA) (world state0)
     = ((Some claimA, None), ())
   \<and> shouldProvision envClassMissing (Some claimA)
   \<and> storageClassForClaim envClassMissing (Some claimA) ()
     = ((None, Some (StatusError StatusReasonNotFound ''no such class'')), ())
   \<and> fst (Reconcile decls0 envClassMissing reconcilerA requestA state0)
     = Ret (\<lparr>Requeue = False, RequeueAfter = 0\<rparr>,
            Some (StatusError StatusReasonNotFound ''no such class''))"
  by (simp add: envClassMissing_def run_defs sample_defs)

subsection \<open>Deprovisioning\<close>

lemma objectBucketForClaimKey_trace:
  assumes "objectBucketForClaimKey c e key s = ((p, er), s')"
  shows "\<exists>g. trace s' = trace s @ [EvClientGet \<lparr>Namespace = [],
           Name = Sprintf c (objectBucketNameFormat c) [Namespace key, Name key]\<rparr> g]"
  using assms
  by (auto simp: objectBucketForClaimKey_def addressOfLiteral_def call_def Let_def
      split: prod.splits option.splits)

lemma deprovisionBinding_events:
  assumes run: "deprovisionBinding c e key s = (res, s')"
  shows "\<exists>evs. trace s' = trace s @ evs
       \<and> \<not> list_ex isDeleteObjectBucket (takeWhile (\<lambda>ev. \<not> isDeprovisionCall ev) evs)
       \<and> length (filter isDeprovisionCall evs) \<le> 1
       \<and> (\<forall>obv pres. EvDelete obv pres \<in> set evs \<longrightarrow>
            (\<exists>cls. EvStorageClassForOB obv (Some cls, None) \<in> set evs \<and> scForNewBkt e cls))
       \<and> (\<forall>obv pres. EvRevoke obv pres \<in> set evs \<longrightarrow>
            (\<exists>cls. EvStorageClassForOB obv (Some cls, None) \<in> set evs
                  \<and> \<not> scForNewBkt e cls))
       \<and> (\<forall>obv x. EvDelete obv (Some x) \<in> set evs \<longrightarrow>
            res = Some (Errorf ''provisioner error deleting bucket %v'' [AError x])
            \<and> \<not> list_ex isDeleteObjectBucket evs)
       \<and> (\<forall>obv x. EvRevoke obv (Some x) \<in> set evs \<longrightarrow>
            res = Some (Errorf ''provisioner error revoking access to bucket %v'' [AError x])
            \<and> \<not> list_ex isDeleteObjectBucket evs)"
  using run
  by (simp add: deprovisionBinding_def Let_def split: prod.splits option.splits if_splits;
      clarsimp dest!: objectBucketForClaimKey_trace call_trace)

text \<open>
  C2. In every deprovisioning pass, no delete of the binding is issued before the plugin
  was called (\<open>Delete\<close> or \<open>Revoke\<close>, at most one call in the pass); \<open>Delete\<close> is
  called only for a class that \<open>scForNewBkt\<close> accepts (dynamic) and \<open>Revoke\<close> only
  for one it rejects (static); and when the plugin call returns an error, the pass
  returns that error, wrapped by the message of line 273 or 277, and issues no delete of
  the binding at all.
\<close>

theorem deprovision_plugin_before_binding_delete:
  assumes run: "handleDeleteClaim c e key s = (res, s')"
  shows "\<not> list_ex isDeleteObjectBucket
            (takeWhile (\<lambda>ev. \<not> isDeprovisionCall ev) (newEvents s s'))
       \<and> length (filter isDeprovisionCall (newEvents s s')) \<le> 1
       \<and> (\<forall>obv pres. EvDelete obv pres \<in> set (newEvents s s') \<longrightarrow>
            (\<exists>cls. EvStorageClassForOB obv (Some cls, None) \<in> set (newEvents s s')
                  \<and> scForNewBkt e cls))
       \<and> (\<forall>obv pres. EvRevoke obv pres \<in> set (newEvents s s') \<longrightarrow>
            (\<exists>cls. EvStorageClassForOB obv (Some cls, None) \<in> set (newEvents s s')
                  \<and> \<not> scForNewBkt e cls))
       \<and> (\<forall>obv x. EvDelete obv (Some x) \<in> set (newEvents s s') \<longrightarrow>
            res = Some (Errorf ''provisioner error deleting bucket %v'' [AError x])
            \<and> \<not> list_ex isDeleteObjectBucket (newEvents s s'))
       \<and> (\<forall>obv x. EvRevoke obv (Some x) \<in> set (newEvents s s') \<longrightarrow>
            res = Some (Errorf ''provisioner error revoking access to bucket %v'' [AError x])
            \<and> \<not> list_ex isDeleteObjectBucket (newEvents s s'))"
  using run
  by (simp add: handleDeleteClaim_def Let_def split: prod.splits if_splits;
      clarsimp dest!: call_trace deprovisionBinding_events; blast)

theorem deprovision_plugin_before_binding_delete_witness:
  "fst (handleDeleteClaim decls0 envPluginDeleteFails keyA state0)
     = Some (Errorf ''provisioner error deleting bucket %v'' [AError (OtherError ''busy'')])
   \<and> map callName (newEvents state0 (snd (handleDeleteClaim decls0 envPluginDeleteFails keyA
        state0)))
     = [''configMapForClaimKey'', ''deleteConfigMap'', ''secretForClaimKey'', ''deleteSecret'',
        ''Client.Get'', ''storageClassForOB'', ''Delete'']
   \<and> \<not> list_ex isDeleteObjectBucket
        (newEvents state0 (snd (handleDeleteClaim decls0 envPluginDeleteFails keyA state0)))"
proof -
  have run: "handleDeleteClaim decls0 envPluginDeleteFails keyA state0
      = (fst (handleDeleteClaim decls0 envPluginDeleteFails keyA state0),
         snd (handleDeleteClaim decls0 envPluginDeleteFails keyA state0))"
    by simp
  have called: "EvDelete (bucketA\<lparr>ob_Name := ''obc-a-b''\<rparr>) (Some (OtherError ''busy''))
      \<in> set (newEvents state0 (snd (handleDeleteClaim decls0 envPluginDeleteFails keyA state0)))"
    by (simp add: envPluginDeleteFails_def run_defs sample_defs)
  have names: "map callName (newEvents state0 (snd (handleDeleteClaim decls0
        envPluginDeleteFails keyA state0)))
     = [''configMapForClaimKey'', ''deleteConfigMap'', ''secretForClaimKey'', ''deleteSecret'',
        ''Client.Get'', ''storageClassForOB'', ''Delete'']"
    by (simp add: envPluginDeleteFails_def run_defs sample_defs)
  from deprovision_plugin_before_binding_delete [OF run] called names
  show ?thesis by blast
qed

text \<open>A pass whose plugin call succeeds deletes the binding right after it.\<close>

lemma deprovision_run_sample:
  "map callName (trace (snd (handleDeleteClaim decls0 env0 keyA state0)))
     = [''configMapForClaimKey'', ''deleteConfigMap'', ''secretForClaimKey'', ''deleteSecret'',
        ''Client.Get'', ''storageClassForOB'', ''Delete'', ''deleteObjectBucket'']
   \<and> fst (handleDeleteClaim decls0 env0 keyA state0) = None"
  by (simp add: run_defs sample_defs)

subsection \<open>Looking the binding up\<close>

text \<open>
  The error that \<open>objectBucketForClaimKey\<close> returns is made by \<^verbatim>\<open>fmt.Errorf\<close> at line
  303, so \<^verbatim>\<open>errors.IsNotFound\<close> is false of it whatever the store answered, and a nil
  binding never comes without an error: the two branches of lines 253-255 and 258-260
  are never taken.
\<close>

lemma objectBucketForClaimKey_result:
  assumes "objectBucketForClaimKey c e key s = ((p, er), s')"
  shows "(case er of Some x \<Rightarrow> \<not> IsNotFound x \<and> p = None | None \<Rightarrow> p \<noteq> None)"
  using assms
  by (auto simp: objectBucketForClaimKey_def addressOfLiteral_def call_def Let_def
      split: prod.splits option.splits)

text \<open>
  C4 at a failing input: the store answers not-found for the binding (config map and
  secret are there and are deleted). The pass returns an error, where the specification
  has it succeed.
\<close>

theorem deprovision_binding_not_found_fails:
  "clientGet envBindingNotFound \<lparr>Namespace = [], Name = ''obc-a-b''\<rparr> zeroObjectBucket ()
     = ((zeroObjectBucket, Some (StatusError StatusReasonNotFound ''not found'')), ())
   \<and> IsNotFound (StatusError StatusReasonNotFound ''not found'')
   \<and> fst (handleDeleteClaim decls0 envBindingNotFound keyA state0)
     = Some (Errorf ''error getting objectBucket for key: %v''
              [AError (Errorf ''error listing object buckets: %v''
                 [AError (StatusError StatusReasonNotFound ''not found'')])])"
  by (simp add: envBindingNotFound_def run_defs sample_defs)

subsection \<open>What the provisioning body leaves behind\<close>

lemma persist_out:
  assumes "persistArtifacts c e r key claim bucketName l0 obv0 s = (out, l, s')"
  shows "(case err l of None \<Rightarrow> out = Ret None \<or> out = Panic | Some x \<Rightarrow> out = Ret (Some x))"
  using assms
  by (auto simp: persistArtifacts_def call_def returned_def Let_def
      split: prod.splits option.splits)

lemma persist_trace:
  assumes "persistArtifacts c e r key claim bucketName l0 obv0 s = (out, l, s')"
  shows "\<exists>evs. trace s' = trace s @ evs \<and> \<not> list_ex isPluginDelete evs"
  using assms
  by (auto simp: persistArtifacts_def call_def returned_def Let_def
      split: prod.splits option.splits)

lemma body_trace:
  assumes "provisionBody c e r key obc class dyn s = (out, l, s')"
  shows "\<exists>evs. trace s' = trace s @ evs \<and> \<not> list_ex isPluginDelete evs"
  using assms
  by (auto simp: provisionBody_def call_def returned_def addressOfLiteral_def Let_def
      split: prod.splits option.splits if_splits dest!: persist_trace)

subsection \<open>The empty object bucket\<close>

text \<open>
  Line 197 compares the plugin's pointer with the address of a new literal: the two are
  never equal, whatever the plugin returned.
\<close>

lemma returned_never_equals_new_literal:
  assumes "returned obv s = (p, s1)" and "addressOfLiteral z s1 = (literal, s2)"
  shows "\<not> ptrEq p literal"
  using assms
  by (auto simp: returned_def addressOfLiteral_def ptrEq_def split: option.splits)

text \<open>
  So the return of line 198 is dead code: in no environment does the body end with that
  error while \<open>err\<close> is nil, as it is right after a plugin call without error.
\<close>

lemma contract_violation_never_returned:
  assumes "provisionBody c e r key obc class dyn s = (out, l, s')" and "err l = None"
  shows "out \<noteq> Ret (Some (Errorf ''provisioner returned nil/empty object bucket'' []))"
  using assms
  by (simp add: provisionBody_def Let_def split: prod.splits option.splits if_splits;
      clarsimp split: option.splits dest!: persist_out;
      blast dest: returned_never_equals_new_literal)

text \<open>
  C3 at a failing input: the plugin reports success and returns a pointer to the zero
  value. The pass goes on to persist the binding, the secret and the config map and
  returns no error, where the specification has it fail with a contract violation.
\<close>

theorem provision_empty_bucket_is_persisted:
  "Provision envEmptyBucket
      \<lparr>bo_ReclaimPolicy = Some ''Delete'', bo_BucketName = ''b-1'',
       bo_ObjectBucketClaim = Some claimA, bo_Parameters = Map.empty\<rparr> ()
     = ((Some zeroObjectBucket, None), ())
   \<and> fst (handleProvisionClaim decls0 envEmptyBucket reconcilerA keyA (Some claimA)
          (Some classA) True state0) = Ret None
   \<and> map callName (trace (snd (handleProvisionClaim decls0 envEmptyBucket reconcilerA keyA
          (Some claimA) (Some classA) True state0)))
     = [''claimForKey'', ''composeBucketName'', ''Provision'', ''claimRefForKey'',
        ''createObjectBucket'', ''createSecret'', ''createConfigMap'', ''updateClaim'']"
  by (simp add: envEmptyBucket_def run_defs sample_defs)

subsection \<open>Provisioning: the successful pass\<close>

lemma persistArtifacts_success:
  assumes "persistArtifacts c e r key claim bucketName l0 obv0 s = (Ret None, l, s')"
  shows "\<exists>refres obv6 sec cm.
      trace s' = trace s @
        [EvClaimRefForKey key refres,
         EvCreateObjectBucket
           (obv0\<lparr>ob_Name := Sprintf c (objectBucketNameFormat c) [Namespace key, Name key],
                  ob_Spec_StorageClassName := obc_Spec_StorageClassName claim,
                  ob_Spec_ClaimRef := fst refres,
                  ob_Finalizers := [finalizer c]\<rparr>) (Some obv6, None),
         EvCreateSecret claim (ob_Spec_Authentication obv6) (sec, None),
         EvCreateConfigMap claim (ob_Spec_Endpoint obv6) (cm, None),
         EvUpdateClaim
           (claim\<lparr>obc_Spec_ObjectBucketName := ob_Name obv6,
                   obc_Spec_BucketName := bucketName\<rparr>) None]
      \<and> err l = None"
  using assms
  by (auto simp: persistArtifacts_def setObjectBucketName_def call_def returned_def Let_def
      split: prod.splits option.splits)

lemma provisionBody_success:
  assumes "provisionBody c e r key obc class True s = (Ret None, l, s')"
    and "list_ex isProvision (newEvents s s')"
  shows "\<exists>claim cls bucketName obv refres obv6 sec cm.
      obc = Some claim \<and> class = Some cls \<and>
      trace s' = trace s @
        [EvComposeBucketName (Some claim) (bucketName, None),
         EvProvision
           \<lparr>bo_ReclaimPolicy = ReclaimPolicy cls, bo_BucketName = bucketName,
            bo_ObjectBucketClaim = Some claim, bo_Parameters = Parameters cls\<rparr>
           (Some obv, None),
         EvClaimRefForKey key refres,
         EvCreateObjectBucket
           (obv\<lparr>ob_Name := Sprintf c (objectBucketNameFormat c) [Namespace key, Name key],
                 ob_Spec_StorageClassName := obc_Spec_StorageClassName claim,
                 ob_Spec_ClaimRef := fst refres,
                 ob_Finalizers := [finalizer c]\<rparr>) (Some obv6, None),
         EvCreateSecret claim (ob_Spec_Authentication obv6) (sec, None),
         EvCreateConfigMap claim (ob_Spec_Endpoint obv6) (cm, None),
         EvUpdateClaim
           (claim\<lparr>obc_Spec_ObjectBucketName := ob_Name obv6,
                   obc_Spec_BucketName := bucketName\<rparr>) None]
      \<and> bucketName \<noteq> [] \<and> err l = None"
  using assms
  by (auto simp: provisionBody_def call_def returned_def addressOfLiteral_def Let_def
        newEvents_def
      split: prod.splits option.splits if_splits dest!: persistArtifacts_success)

text \<open>
  C7, as the code has it (the specification has the phase become \<open>Bound\<close>). A dynamic
  provisioning pass that called the plugin and returned no error made exactly these
  calls, each without an error: the claim is fetched, the bucket name composed,
  \<open>Provision\<close> called once with that name and the claim, the binding named, given the
  finalizer and created, the secret and the config map created from the stored binding,
  and the claim updated with the binding's name and the bucket name. No artifact is
  deleted. The claim handed to the store has the phase it was fetched with: the pass
  assigns no phase.
\<close>

theorem successful_dynamic_provisioning:
  assumes run: "handleProvisionClaim c e r key obc0 class True s = (Ret None, s')"
    and invoked: "list_ex isProvision (newEvents s s')"
  shows "\<exists>claim cls bucketName obv refres obv6 sec cm.
      class = Some cls \<and>
      newEvents s s' =
        [EvClaimForKey key (Some claim, None),
         EvComposeBucketName (Some claim) (bucketName, None),
         EvProvision
           \<lparr>bo_ReclaimPolicy = ReclaimPolicy cls, bo_BucketName = bucketName,
            bo_ObjectBucketClaim = Some claim, bo_Parameters = Parameters cls\<rparr>
           (Some obv, None),
         EvClaimRefForKey key refres,
         EvCreateObjectBucket
           (obv\<lparr>ob_Name := Sprintf c (objectBucketNameFormat c) [Namespace key, Name key],
                 ob_Spec_StorageClassName := obc_Spec_StorageClassName claim,
                 ob_Spec_ClaimRef := fst refres,
                 ob_Finalizers := [finalizer c]\<rparr>) (Some obv6, None),
         EvCreateSecret claim (ob_Spec_Authentication obv6) (sec, None),
         EvCreateConfigMap claim (ob_Spec_Endpoint obv6) (cm, None),
         EvUpdateClaim
           (claim\<lparr>obc_Spec_ObjectBucketName := ob_Name obv6,
                   obc_Spec_BucketName := bucketName\<rparr>) None]
      \<and> phasesWritten (newEvents s s') = [obc_Status_Phase claim]"
proof -
  obtain obc er s1 where fetch: "call (EvClaimForKey key) (claimForKey e key) s = ((obc, er), s1)"
    by (metis surj_pair)
  obtain out l s2 where body: "provisionBody c e r key obc class True s1 = (out, l, s2)"
    by (metis surj_pair)
  have tr1: "trace s1 = trace s @ [EvClaimForKey key (obc, er)]"
    using call_trace [OF fetch] by simp
  have er: "er = None"
    using run fetch by (auto simp: handleProvisionClaim_def split: option.splits if_splits)
  have out: "out = Ret None" and s': "s' = deferredCleanup e True l s2"
    using run fetch body er by (auto simp: handleProvisionClaim_def)
  obtain evs where tr2: "trace s2 = trace s1 @ evs" and nodel: "\<not> list_ex isPluginDelete evs"
    using body_trace [OF body] by blast
  have noerr: "err l = None"
    using body out
    by (simp add: provisionBody_def Let_def split: prod.splits option.splits if_splits;
        clarsimp dest!: persist_out split: option.splits)
  have same: "s' = s2"
    using s' noerr by (simp add: deferredCleanup_def)
  have "list_ex isProvision (newEvents s1 s2)"
    using invoked same tr1 tr2 by (simp add: newEvents_def)
  from provisionBody_success [OF body [unfolded out] this] tr1 er same
  show ?thesis by (auto simp: newEvents_def)
qed

theorem successful_dynamic_provisioning_witness:
  "fst (handleProvisionClaim decls0 env0 reconcilerA keyA None (Some classA) True state0)
     = Ret None
   \<and> map callName (newEvents state0 (snd (handleProvisionClaim decls0 env0 reconcilerA keyA
        None (Some classA) True state0)))
     = [''claimForKey'', ''composeBucketName'', ''Provision'', ''claimRefForKey'',
        ''createObjectBucket'', ''createSecret'', ''createConfigMap'', ''updateClaim'']
   \<and> phasesWritten (newEvents state0 (snd (handleProvisionClaim decls0 env0 reconcilerA keyA
        None (Some classA) True state0))) = [Pending]"
proof -
  let ?run = "handleProvisionClaim decls0 env0 reconcilerA keyA None (Some classA) True state0"
  have res: "fst ?run = Ret None"
    by (simp add: run_defs sample_defs)
  have run: "?run = (Ret None, snd ?run)"
    using res by (metis prod.collapse)
  have invoked: "list_ex isProvision (newEvents state0 (snd ?run))"
    by (simp add: run_defs sample_defs)
  have fetched: "hd (newEvents state0 (snd ?run)) = EvClaimForKey keyA (Some claimA, None)"
    by (simp add: run_defs sample_defs)
  from successful_dynamic_provisioning [OF run invoked] fetched res
  show ?thesis by (auto simp: claimA_def)
qed

text \<open>
  The sample pass succeeds, and the only claim it hands to the store has the phase
  \<open>Pending\<close> it was fetched with, not \<open>Bound\<close>; \<^verbatim>\<open>updateObjectBucketClaimPhase\<close>
  is not called.
\<close>

theorem provisioning_phase_counterexample:
  "fst (handleProvisionClaim decls0 env0 reconcilerA keyA (Some claimA) (Some classA) True
          state0) = Ret None
   \<and> map callName (trace (snd (handleProvisionClaim decls0 env0 reconcilerA keyA
        (Some claimA) (Some classA) True state0)))
     = [''claimForKey'', ''composeBucketName'', ''Provision'', ''claimRefForKey'',
        ''createObjectBucket'', ''createSecret'', ''createConfigMap'', ''updateClaim'']
   \<and> phasesWritten (trace (snd (handleProvisionClaim decls0 env0 reconcilerA keyA
        (Some claimA) (Some classA) True state0))) = [Pending]
   \<and> Bound \<notin> set (phasesWritten (trace (snd (handleProvisionClaim decls0 env0 reconcilerA
        keyA (Some claimA) (Some classA) True state0))))"
  by (simp add: run_defs sample_defs)

subsection \<open>Provisioning: the cleanup after a failure\<close>












subsection \<open>The order of the cleanup\<close>




subsection \<open>The name of the binding\<close>

lemma bindingNames_append: "bindingNames (xs @ ys) = bindingNames xs @ bindingNames ys"
  by (induction xs rule: bindingNames.induct) simp_all

lemma persist_names:
  assumes "persistArtifacts c e r key claim bucketName l0 obv0 s = (out, l, s')"
  shows "\<exists>evs. trace s' = trace s @ evs
       \<and> set (bindingNames evs)
           \<subseteq> {Sprintf c (objectBucketNameFormat c) [Namespace key, Name key]}"
  using assms
  by (auto simp: persistArtifacts_def setObjectBucketName_def call_def returned_def Let_def
      split: prod.splits option.splits)

lemma body_names:
  assumes "provisionBody c e r key obc class dyn s = (out, l, s')"
  shows "\<exists>evs. trace s' = trace s @ evs
       \<and> set (bindingNames evs)
           \<subseteq> {Sprintf c (objectBucketNameFormat c) [Namespace key, Name key]}"
  using assms
  by (auto simp: provisionBody_def call_def returned_def addressOfLiteral_def Let_def
      split: prod.splits option.splits if_splits dest!: persist_names)

lemma deferredCleanup_names:
  "\<exists>evs. trace (deferredCleanup e dyn l s) = trace s @ evs \<and> bindingNames evs = []"
  by (auto simp: deferredCleanup_def deleteResources_def call_def Let_def
      split: prod.splits option.splits)

lemma provision_names:
  assumes "handleProvisionClaim c e r key obc0 class dyn s = (out, s')"
  shows "set (bindingNames (newEvents s s'))
           \<subseteq> {Sprintf c (objectBucketNameFormat c) [Namespace key, Name key]}"
proof -
  obtain obc er s1 where fetch: "call (EvClaimForKey key) (claimForKey e key) s = ((obc, er), s1)"
    by (metis surj_pair)
  have tr1: "trace s1 = trace s @ [EvClaimForKey key (obc, er)]"
    using call_trace [OF fetch] by simp
  show ?thesis
  proof (cases er)
    case (Some x)
    then have "s' = s1"
      using assms fetch by (auto simp: handleProvisionClaim_def split: if_splits)
    then show ?thesis using tr1 by (simp add: newEvents_def)
  next
    case None
    obtain out' l s2 where body: "provisionBody c e r key obc class dyn s1 = (out', l, s2)"
      by (metis surj_pair)
    have s': "s' = deferredCleanup e dyn l s2"
      using assms fetch body None by (auto simp: handleProvisionClaim_def)
    obtain evs where tr2: "trace s2 = trace s1 @ evs"
      and n2: "set (bindingNames evs)
           \<subseteq> {Sprintf c (objectBucketNameFormat c) [Namespace key, Name key]}"
      using body_names [OF body] by blast
    obtain evs' where tr3: "trace (deferredCleanup e dyn l s2) = trace s2 @ evs'"
      and n3: "bindingNames evs' = []"
      using deferredCleanup_names by blast
    show ?thesis
      using s' tr1 tr2 tr3 n2 n3 by (simp add: newEvents_def bindingNames_append)
  qed
qed

lemma deprovisionBinding_names:
  assumes "deprovisionBinding c e key s = (res, s')"
  shows "\<exists>evs. trace s' = trace s @ evs
       \<and> set (bindingNames evs)
           \<subseteq> {Sprintf c (objectBucketNameFormat c) [Namespace key, Name key]}"
  using assms
  by (auto simp: deprovisionBinding_def Let_def
      split: prod.splits option.splits if_splits
      dest!: objectBucketForClaimKey_trace call_trace)

lemma deprovision_names:
  assumes "handleDeleteClaim c e key s = (res, s')"
  shows "set (bindingNames (newEvents s s'))
           \<subseteq> {Sprintf c (objectBucketNameFormat c) [Namespace key, Name key]}"
  using assms
  apply (simp add: handleDeleteClaim_def Let_def split: prod.splits if_splits)
       apply (auto simp: bindingNames_append dest!: call_trace deprovisionBinding_names)
  done

text \<open>
  C8. Every binding name that a provisioning pass and a deprovisioning pass for the same
  claim key use (the name under which the binding is handed to the store for creation,
  the name it is looked up by) is the format \<open>objectBucketNameFormat\<close> applied to the
  namespace and the name of the key, whatever the two environments and the two states
  are: the name depends on the claim's identity only, so any two passes agree on it.
\<close>

theorem binding_name_deterministic:
  assumes provision: "handleProvisionClaim c e1 r key obc0 class dyn s1 = (out, s1')"
    and deprovision: "handleDeleteClaim c e2 key s2 = (res, s2')"
  shows "\<forall>n \<in> set (bindingNames (newEvents s1 s1') @ bindingNames (newEvents s2 s2')).
           n = Sprintf c (objectBucketNameFormat c) [Namespace key, Name key]"
  using provision_names [OF provision] deprovision_names [OF deprovision] by auto

theorem binding_name_deterministic_witness:
  "bindingNames (newEvents state0 (snd (handleProvisionClaim decls0 env0 reconcilerA keyA None
      (Some classA) True state0))) = [''obc-a-b'']
   \<and> bindingNames (newEvents state0 (snd (handleDeleteClaim decls0 env0 keyA state0)))
     = [''obc-a-b'']
   \<and> Sprintf decls0 (objectBucketNameFormat decls0) [Namespace keyA, Name keyA] = ''obc-a-b''"
proof -
  let ?p = "handleProvisionClaim decls0 env0 reconcilerA keyA None (Some classA) True state0"
  let ?d = "handleDeleteClaim decls0 env0 keyA state0"
  have provision: "?p = (fst ?p, snd ?p)" and deprovision: "?d = (fst ?d, snd ?d)"
    by simp_all
  have p: "bindingNames (newEvents state0 (snd ?p)) = [''obc-a-b'']"
    by (simp add: run_defs sample_defs)
  have d: "bindingNames (newEvents state0 (snd ?d)) = [''obc-a-b'']"
    by (simp add: run_defs sample_defs)
  from binding_name_deterministic [OF provision deprovision] p d
  show ?thesis by simp
qed

end
